theory Spec2Isabelle
  imports Main
begin

section \<open>The signer listener endpoint of package privval\<close>

text \<open>
  A shallow embedding of \<^verbatim>\<open>privval/signer_listener_endpoint.go\<close>. The endpoint owns a
  listener and at most one accepted connection, exchanges length-prefixed messages on
  that connection under a mutex, and runs a heartbeat goroutine that pings the peer on
  every tick and accepts a replacement connection when the ping fails.

  The Go methods mutate the receiver and call collaborators that are not part of the
  file (the \<^verbatim>\<open>net.Listener\<close>, the \<^verbatim>\<open>net.Conn\<close>, the amino codec, the logger).
  The model passes the endpoint explicitly and takes the collaborators' answers from
  an environment of oracles indexed by a clock, which counts the collaborator calls made
  so far. Every collaborator call and every log line is appended to a trace, so that
  what a method attempted, and in which order, is a property of the state it returns.
\<close>

subsection \<open>Messages and errors\<close>

text \<open>
  \<^verbatim>\<open>RemoteSignerMsg\<close> is an interface; the file names two of its implementations,
  \<^verbatim>\<open>PingRequest\<close> and \<^verbatim>\<open>PingResponse\<close>. All others are opaque here. A nil
  interface value is \<open>None\<close> of \<open>msg option\<close>.
\<close>

datatype msg = PingRequest | PingResponse | OtherMsg nat

text \<open>
  An error value of a collaborator's own type (package net, the codec). The file
  inspects it in one way only: the type assertion \<^verbatim>\<open>err.(timeoutError)\<close>, which
  succeeds when the dynamic type has a \<^verbatim>\<open>Timeout()\<close> method, and \<^verbatim>\<open>err.Error()\<close>.
\<close>

datatype io_error = IOError (hasTimeoutMethod: bool) (errorText: string)

text \<open>
  The error values the endpoint handles. \<open>ErrUnexpectedResponse\<close> and
  \<open>ErrListenerTimeout\<close> are package-level sentinels of privval, compared by identity;
  \<open>Errorf\<close> is a fresh \<^verbatim>\<open>fmt.Errorf\<close> value; \<open>ErrorWrap\<close> is \<^verbatim>\<open>cmn.ErrorWrap\<close>
  of a cause and a text; \<open>External\<close> is an error value of a collaborator's own type.
  Equality of \<open>error\<close> stands for Go's \<^verbatim>\<open>==\<close> on error values.
\<close>

datatype error =
    ErrUnexpectedResponse
  | ErrListenerTimeout
  | Errorf string
  | ErrorWrap error string
  | External io_error

subsection \<open>The endpoint, the trace and the environment\<close>

type_synonym conn_id = nat
type_synonym listener_id = nat
type_synonym chan_id = nat

datatype event =
    EvLock
  | EvUnlock
  | EvConnClose conn_id
  | EvListenerClose listener_id
  | EvAccept listener_id
  | EvWrite conn_id msg
  | EvRead conn_id
  | EvLogError string error
  | EvLogInfo string
  | EvMakeChan chan_id
  | EvCloseChan chan_id
  | EvNewTicker int
  | EvTickerStop
  | EvGoHeartbeat

text \<open>
  The fields of \<^verbatim>\<open>SignerListenerEndpoint\<close>, followed by the part of the world the
  methods act on: the clock, the trace, the channels closed so far and the next fresh
  channel. \<open>mtx\<close> is true while the mutex is held. Durations are nanoseconds.
\<close>

record endpoint =
  listener :: "listener_id option"
  conn :: "conn_id option"
  cancelPingCh :: "chan_id option"
  pingTicker :: "int option"
  heartbeatPeriod :: int
  mtx :: bool
  clock :: nat
  trace :: "event list"
  closedChans :: "chan_id list"
  nextChan :: chan_id

text \<open>
  What \<^verbatim>\<open>listener.Accept()\<close> does: it may never return, or it returns the Go pair
  \<^verbatim>\<open>(net.Conn, error)\<close>. The errors of \<^verbatim>\<open>Accept\<close> and of the two \<^verbatim>\<open>Close\<close>
  methods are only logged and returned by the file. The errors of the codec's write and
  read reach the comparison \<^verbatim>\<open>err == ErrUnexpectedResponse\<close> of the heartbeat loop, so
  the write and the read may hand up any error value, the exported sentinels of this
  package among them.
\<close>

datatype accept_result = AcceptBlocks | AcceptReturns "conn_id option" "io_error option"

record env =
  acceptR :: "nat \<Rightarrow> accept_result"
  connCloseR :: "conn_id \<Rightarrow> nat \<Rightarrow> io_error option"
  listenerCloseR :: "nat \<Rightarrow> io_error option"
  writeR :: "conn_id \<Rightarrow> msg \<Rightarrow> nat \<Rightarrow> error option"
  readR :: "conn_id \<Rightarrow> nat \<Rightarrow> msg option \<times> error option"

text \<open>
  A method returns a value and the endpoint it leaves, panics, or blocks forever.
\<close>

datatype 'a outcome = Returns 'a endpoint | Panics | Blocks

fun bind_outcome :: "'a outcome \<Rightarrow> ('a \<Rightarrow> endpoint \<Rightarrow> 'b outcome) \<Rightarrow> 'b outcome" where
  "bind_outcome (Returns a s) f = f a s"
| "bind_outcome Panics f = Panics"
| "bind_outcome Blocks f = Blocks"

definition emit :: "event \<Rightarrow> endpoint \<Rightarrow> endpoint" where
  "emit ev s = s\<lparr>trace := trace s @ [ev]\<rparr>"

definition advance :: "endpoint \<Rightarrow> endpoint" where
  "advance s = s\<lparr>clock := Suc (clock s)\<rparr>"

definition logError :: "string \<Rightarrow> error \<Rightarrow> endpoint \<Rightarrow> endpoint" where
  "logError m e s = emit (EvLogError m e) s"

definition logInfo :: "string \<Rightarrow> endpoint \<Rightarrow> endpoint" where
  "logInfo m s = emit (EvLogInfo m) s"

subsection \<open>The mutex\<close>

text \<open>
  \<^verbatim>\<open>sync.Mutex\<close> is not reentrant: \<^verbatim>\<open>Lock\<close> on a held mutex waits for another
  goroutine to release it, which in a single thread of control never happens, and
  \<^verbatim>\<open>Unlock\<close> of a free mutex is a fatal error.
\<close>

definition Lock :: "endpoint \<Rightarrow> unit outcome" where
  "Lock s = (if mtx s then Blocks else Returns () (emit EvLock (s\<lparr>mtx := True\<rparr>)))"

definition Unlock :: "endpoint \<Rightarrow> unit outcome" where
  "Unlock s = (if mtx s then Returns () (emit EvUnlock (s\<lparr>mtx := False\<rparr>)) else Panics)"

text \<open>
  \<^verbatim>\<open>ve.mtx.Lock(); defer ve.mtx.Unlock()\<close> around a method body.
\<close>

definition locked :: "(endpoint \<Rightarrow> 'a outcome) \<Rightarrow> endpoint \<Rightarrow> 'a outcome" where
  "locked body s =
     bind_outcome (Lock s) (\<lambda>_ s1.
     bind_outcome (body s1) (\<lambda>r s2.
     bind_outcome (Unlock s2) (\<lambda>_ s3. Returns r s3)))"

subsection \<open>Collaborator calls\<close>

definition connClose :: "env \<Rightarrow> conn_id \<Rightarrow> endpoint \<Rightarrow> io_error option \<times> endpoint" where
  "connClose env c s = (connCloseR env c (clock s), emit (EvConnClose c) (advance s))"

definition listenerClose :: "env \<Rightarrow> listener_id \<Rightarrow> endpoint \<Rightarrow> io_error option \<times> endpoint" where
  "listenerClose env l s = (listenerCloseR env (clock s), emit (EvListenerClose l) (advance s))"

definition listenerAccept :: "env \<Rightarrow> listener_id \<Rightarrow> endpoint \<Rightarrow> (conn_id option \<times> io_error option) outcome" where
  "listenerAccept env l s =
     (case acceptR env (clock s) of
        AcceptBlocks \<Rightarrow> Blocks
      | AcceptReturns c e \<Rightarrow> Returns (c, e) (emit (EvAccept l) (advance s)))"

definition marshalWrite :: "env \<Rightarrow> conn_id \<Rightarrow> msg \<Rightarrow> endpoint \<Rightarrow> error option \<times> endpoint" where
  "marshalWrite env c m s = (writeR env c m (clock s), emit (EvWrite c m) (advance s))"

definition unmarshalRead :: "env \<Rightarrow> conn_id \<Rightarrow> endpoint \<Rightarrow> (msg option \<times> error option) \<times> endpoint" where
  "unmarshalRead env c s = (readR env c (clock s), emit (EvRead c) (advance s))"

text \<open>
  \<^verbatim>\<open>if _, ok := err.(timeoutError); ok { err = cmn.ErrorWrap(ErrListenerTimeout, err.Error()) }\<close>
  The values of \<^verbatim>\<open>fmt.Errorf\<close> and \<^verbatim>\<open>cmn.ErrorWrap\<close>, the sentinels among them, have
  no \<^verbatim>\<open>Timeout()\<close> method, so the assertion can succeed only on a value of a
  collaborator's own type. Every other error, and nil, is left as it is.
\<close>

definition wrapTimeout :: "error option \<Rightarrow> error option" where
  "wrapTimeout r =
     (case r of
        Some (External x) \<Rightarrow>
          if hasTimeoutMethod x then Some (ErrorWrap ErrListenerTimeout (errorText x))
          else Some (External x)
      | _ \<Rightarrow> r)"

subsection \<open>Close\<close>

definition closeListenerPart :: "env \<Rightarrow> endpoint \<Rightarrow> error option outcome" where
  "closeListenerPart env s =
     (case listener s of
        None \<Rightarrow> Returns None s
      | Some l \<Rightarrow>
          (case listenerClose env l s of
             (Some e, s1) \<Rightarrow> Returns (Some (External e)) (logError ''Closing Listener'' (External e) s1)
           | (None, s1) \<Rightarrow> Returns None s1))"

definition closeBody :: "env \<Rightarrow> endpoint \<Rightarrow> error option outcome" where
  "closeBody env s =
     (case conn s of
        None \<Rightarrow> closeListenerPart env s
      | Some c \<Rightarrow>
          (case connClose env c s of
             (Some e, s1) \<Rightarrow> Returns (Some (External e)) (logError ''Closing connection'' (External e) s1)
           | (None, s1) \<Rightarrow> closeListenerPart env (s1\<lparr>conn := None\<rparr>)))"

definition Close :: "env \<Rightarrow> endpoint \<Rightarrow> error option outcome" where
  "Close env s = locked (closeBody env) s"

subsection \<open>writeMessage, readMessage, SendRequest, ping\<close>

definition writeMessage :: "env \<Rightarrow> msg \<Rightarrow> endpoint \<Rightarrow> error option outcome" where
  "writeMessage env m s =
     (case conn s of
        None \<Rightarrow> Returns (Some (Errorf ''endpoint is not connected'')) s
      | Some c \<Rightarrow> (case marshalWrite env c m s of (r, s1) \<Rightarrow> Returns (wrapTimeout r) s1))"

text \<open>
  \<^verbatim>\<open>readMessage\<close> hands \<^verbatim>\<open>ve.conn\<close> to the codec without a check; reading from a nil
  \<^verbatim>\<open>net.Conn\<close> is a nil dereference.
\<close>

definition readMessage :: "env \<Rightarrow> endpoint \<Rightarrow> (msg option \<times> error option) outcome" where
  "readMessage env s =
     (case conn s of
        None \<Rightarrow> Panics
      | Some c \<Rightarrow> (case unmarshalRead env c s of ((m, r), s1) \<Rightarrow> Returns (m, wrapTimeout r) s1))"

definition sendRequestBody :: "env \<Rightarrow> msg \<Rightarrow> endpoint \<Rightarrow> (msg option \<times> error option) outcome" where
  "sendRequestBody env request s =
     bind_outcome (writeMessage env request s) (\<lambda>err s1.
       case err of
         Some e \<Rightarrow> Returns (None, Some e) s1
       | None \<Rightarrow>
           bind_outcome (readMessage env s1) (\<lambda>(res, err) s2.
             case err of
               Some e \<Rightarrow> Returns (None, Some e) s2
             | None \<Rightarrow> Returns (res, None) s2))"

definition SendRequest :: "env \<Rightarrow> msg \<Rightarrow> endpoint \<Rightarrow> (msg option \<times> error option) outcome" where
  "SendRequest env request s = locked (sendRequestBody env request) s"

definition ping :: "env \<Rightarrow> endpoint \<Rightarrow> error option outcome" where
  "ping env s =
     bind_outcome (SendRequest env PingRequest s) (\<lambda>(response, err) s1.
       case err of
         Some e \<Rightarrow> Returns (Some e) s1
       | None \<Rightarrow>
           if response = Some PingResponse then Returns None s1
           else Returns (Some ErrUnexpectedResponse) s1)"

subsection \<open>connect\<close>

text \<open>
  The first step of \<^verbatim>\<open>connect\<close>: close the connection held, log a failure, go on.
\<close>

definition closeOld :: "env \<Rightarrow> endpoint \<Rightarrow> endpoint" where
  "closeOld env s =
     (case conn s of
        None \<Rightarrow> s
      | Some c \<Rightarrow>
          (case connClose env c s of
             (Some e, s1) \<Rightarrow>
               logError ''error closing socket val connection during connect'' (External e) s1
           | (None, s1) \<Rightarrow> s1))"

text \<open>
  The rest: \<^verbatim>\<open>ve.conn, err = ve.listener.Accept()\<close> stores whatever connection the
  listener returned, then the three returns. The block after the nil test is guarded
  by \<^verbatim>\<open>err != nil\<close> a second time and is never entered. Calling \<^verbatim>\<open>Accept\<close> on a
  nil listener panics.
\<close>

definition acceptNew :: "env \<Rightarrow> endpoint \<Rightarrow> (bool \<times> error option) outcome" where
  "acceptNew env s =
     (case listener s of
        None \<Rightarrow> Panics
      | Some l \<Rightarrow>
          bind_outcome (listenerAccept env l s) (\<lambda>(c, err) s1.
            let s2 = s1\<lparr>conn := c\<rparr> in
            case err of
              Some e \<Rightarrow> Returns (False, Some (External e)) s2
            | None \<Rightarrow>
                if conn s2 = None then Returns (True, None) s2
                else Returns (False, None) s2))"

definition connectBody :: "env \<Rightarrow> endpoint \<Rightarrow> (bool \<times> error option) outcome" where
  "connectBody env s = acceptNew env (closeOld env s)"

definition connect :: "env \<Rightarrow> endpoint \<Rightarrow> (bool \<times> error option) outcome" where
  "connect env s = locked (connectBody env) s"

subsection \<open>OnStart, the heartbeat goroutine, OnStop\<close>

text \<open>
  \<^verbatim>\<open>make(chan struct{}, 1)\<close> yields a channel that no one has closed;
  \<^verbatim>\<open>time.NewTicker\<close> panics on a period that is not positive; \<^verbatim>\<open>go func() {...}()\<close>
  launches the heartbeat loop, whose run is \<open>heartbeat_loop\<close> below.
\<close>

definition makeChan :: "endpoint \<Rightarrow> endpoint" where
  "makeChan s =
     emit (EvMakeChan (nextChan s))
       (s\<lparr>cancelPingCh := Some (nextChan s), nextChan := Suc (nextChan s)\<rparr>)"

definition newTicker :: "endpoint \<Rightarrow> unit outcome" where
  "newTicker s =
     (if heartbeatPeriod s \<le> 0 then Panics
      else Returns () (emit (EvNewTicker (heartbeatPeriod s)) (s\<lparr>pingTicker := Some (heartbeatPeriod s)\<rparr>)))"

definition OnStart :: "env \<Rightarrow> endpoint \<Rightarrow> error option outcome" where
  "OnStart env s =
     bind_outcome (connect env s) (\<lambda>(closed, err) s1.
       case err of
         Some e \<Rightarrow> Returns (Some e) (logError ''OnStart'' e s1)
       | None \<Rightarrow>
           if closed then Returns (Some (Errorf ''listener is closed'')) s1
           else bind_outcome (newTicker (makeChan s1)) (\<lambda>_ s2.
                  Returns None (emit EvGoHeartbeat s2)))"

datatype loop_state = Probing | Terminated

text \<open>
  The body of \<^verbatim>\<open>case <-ve.pingTicker.C\<close>: one tick of the heartbeat loop. \<open>Probing\<close>
  stands for going round the \<^verbatim>\<open>for\<close> loop again, \<open>Terminated\<close> for \<^verbatim>\<open>return\<close>.
  \<open>reconnect\<close> is the part of the body after the test for the unexpected response.
\<close>

definition reconnect :: "env \<Rightarrow> endpoint \<Rightarrow> loop_state outcome" where
  "reconnect env s =
     bind_outcome (connect env s) (\<lambda>(closed, err) s1.
       case err of
         Some e \<Rightarrow> Returns Probing (logError ''Reconnecting to remote signer failed'' e s1)
       | None \<Rightarrow>
           if closed then Returns Terminated (logInfo ''listener is closing'' s1)
           else Returns Probing (logInfo ''Re-created connection to remote signer'' s1))"

definition heartbeat_tick :: "env \<Rightarrow> endpoint \<Rightarrow> loop_state outcome" where
  "heartbeat_tick env s =
     bind_outcome (ping env s) (\<lambda>err s1.
       case err of
         None \<Rightarrow> Returns Probing s1
       | Some e \<Rightarrow>
           let s2 = logError ''Ping'' e s1 in
           if e = ErrUnexpectedResponse then Returns Terminated s2
           else reconnect env s2)"

text \<open>
  \<^verbatim>\<open>close(ch)\<close> panics on a channel that is already closed.
\<close>

definition closeChan :: "chan_id \<Rightarrow> endpoint \<Rightarrow> unit outcome" where
  "closeChan ch s =
     (if ch \<in> set (closedChans s) then Panics
      else Returns () (emit (EvCloseChan ch) (s\<lparr>closedChans := ch # closedChans s\<rparr>)))"

definition OnStop :: "env \<Rightarrow> endpoint \<Rightarrow> unit outcome" where
  "OnStop env s =
     bind_outcome
       (case cancelPingCh s of
          Some ch \<Rightarrow> bind_outcome (closeChan ch s) (\<lambda>_ s1. Returns () (s1\<lparr>cancelPingCh := None\<rparr>))
        | None \<Rightarrow> Returns () s)
       (\<lambda>_ s1. bind_outcome (Close env s1) (\<lambda>_ s2. Returns () s2))"

text \<open>
  The \<^verbatim>\<open>for { select { ... } }\<close> loop of the goroutine. What wakes the goroutine is
  the scheduler's choice and is given as a list. On entry to the \<^verbatim>\<open>select\<close> the
  channel expression \<^verbatim>\<open>ve.cancelPingCh\<close> is evaluated once, and the goroutine waits on
  the channel it found there, whatever is assigned to the field afterwards:
  \<open>heartbeat_select\<close> carries that channel. \<open>TickerC\<close> is a tick. \<open>CancelPingCh\<close> is
  the receive from the channel waited on, which can fire only when that channel has
  been closed (nothing is ever sent on it, and a nil channel never fires); otherwise the
  \<^verbatim>\<open>select\<close> keeps waiting. \<open>StopCalled\<close> is a call of \<^verbatim>\<open>OnStop\<close> by another
  goroutine while this one waits in its \<^verbatim>\<open>select\<close>. When the list is used up the
  loop is still waiting.
\<close>

datatype loop_event = TickerC | CancelPingCh | StopCalled

definition chanReady :: "chan_id option \<Rightarrow> endpoint \<Rightarrow> bool" where
  "chanReady ch s = (case ch of None \<Rightarrow> False | Some c \<Rightarrow> c \<in> set (closedChans s))"

fun heartbeat_select :: "env \<Rightarrow> chan_id option \<Rightarrow> loop_event list \<Rightarrow> endpoint \<Rightarrow> loop_state outcome" where
  "heartbeat_select env ch [] s = Returns Probing s"
| "heartbeat_select env ch (TickerC # sched) s =
     bind_outcome (heartbeat_tick env s) (\<lambda>st s1.
       case st of
         Probing \<Rightarrow> heartbeat_select env (cancelPingCh s1) sched s1
       | Terminated \<Rightarrow> Returns Terminated s1)"
| "heartbeat_select env ch (CancelPingCh # sched) s =
     (if chanReady ch s then Returns Terminated (emit EvTickerStop s)
      else heartbeat_select env ch sched s)"
| "heartbeat_select env ch (StopCalled # sched) s =
     bind_outcome (OnStop env s) (\<lambda>_ s1. heartbeat_select env ch sched s1)"

definition heartbeat_loop :: "env \<Rightarrow> loop_event list \<Rightarrow> endpoint \<Rightarrow> loop_state outcome" where
  "heartbeat_loop env sched s = heartbeat_select env (cancelPingCh s) sched s"

text \<open>
  \<^verbatim>\<open>NewSignerListenerEndpoint\<close>: the listener given, the default heartbeat period of two
  seconds, every other field at its zero value.
\<close>

definition defaultHeartbeatSeconds :: int where
  "defaultHeartbeatSeconds = 2"

definition NewSignerListenerEndpoint :: "listener_id option \<Rightarrow> endpoint" where
  "NewSignerListenerEndpoint l =
     \<lparr>listener = l, conn = None, cancelPingCh = None, pingTicker = None,
      heartbeatPeriod = 1000000000 * defaultHeartbeatSeconds, mtx = False,
      clock = 0, trace = [], closedChans = [], nextChan = 0\<rparr>"

subsection \<open>Observations on traces and outcomes\<close>

definition traceAfter :: "'a outcome \<Rightarrow> event list" where
  "traceAfter r = (case r of Returns _ s \<Rightarrow> trace s | Panics \<Rightarrow> [] | Blocks \<Rightarrow> [])"

text \<open>
  The number of \<^verbatim>\<open>Accept\<close> calls that returned. \<^verbatim>\<open>connect\<close> is the only method
  that calls \<^verbatim>\<open>Accept\<close>, and it calls it once, so this counts the completed
  \<^verbatim>\<open>connect()\<close> calls.
\<close>

definition accepts :: "event list \<Rightarrow> nat" where
  "accepts tr = length (filter (\<lambda>ev. case ev of EvAccept _ \<Rightarrow> True | _ \<Rightarrow> False) tr)"

definition closes :: "event list \<Rightarrow> nat" where
  "closes tr = length (filter (\<lambda>ev. case ev of EvCloseChan _ \<Rightarrow> True | _ \<Rightarrow> False) tr)"

text \<open>
  The clock value at which \<^verbatim>\<open>connect\<close> reaches \<^verbatim>\<open>Accept\<close>, the events of its first
  step, and the pair it returns for what \<^verbatim>\<open>Accept\<close> returned.
\<close>

definition acceptTime :: "endpoint \<Rightarrow> nat" where
  "acceptTime s = (case conn s of None \<Rightarrow> clock s | Some _ \<Rightarrow> Suc (clock s))"

definition closeOldEvents :: "env \<Rightarrow> endpoint \<Rightarrow> event list" where
  "closeOldEvents env s =
     (case conn s of
        None \<Rightarrow> []
      | Some c \<Rightarrow>
          (case connCloseR env c (clock s) of
             None \<Rightarrow> [EvConnClose c]
           | Some e \<Rightarrow>
               [EvConnClose c,
                EvLogError ''error closing socket val connection during connect'' (External e)]))"

definition connectResult :: "conn_id option \<Rightarrow> io_error option \<Rightarrow> bool \<times> error option" where
  "connectResult c aerr =
     (case aerr of Some e \<Rightarrow> (False, Some (External e)) | None \<Rightarrow> (c = None, None))"

text \<open>
  The contract of \<^verbatim>\<open>net.Listener\<close>: an \<^verbatim>\<open>Accept\<close> that returns an error returns no
  connection with it.
\<close>

fun acceptContract :: "accept_result \<Rightarrow> bool" where
  "acceptContract AcceptBlocks = True"
| "acceptContract (AcceptReturns c e) = (e = None \<or> c = None)"

text \<open>
  \<open>n\<close> calls of \<^verbatim>\<open>OnStop\<close> in a row.
\<close>

fun OnStop_times :: "env \<Rightarrow> nat \<Rightarrow> endpoint \<Rightarrow> unit outcome" where
  "OnStop_times env 0 s = Returns () s"
| "OnStop_times env (Suc n) s = bind_outcome (OnStop env s) (\<lambda>_ s1. OnStop_times env n s1)"

subsection \<open>Concrete endpoints and environments\<close>

definition closeFailure :: io_error where
  "closeFailure = IOError False ''use of closed network connection''"

text \<open>
  An environment in which every call succeeds: the accept at time \<open>t\<close> yields the
  connection \<open>Suc t\<close>, and every read yields a \<open>PingResponse\<close>.
\<close>

definition envQuiet :: env where
  "envQuiet =
     \<lparr>acceptR = (\<lambda>t. AcceptReturns (Some (Suc t)) None),
      connCloseR = (\<lambda>c t. None),
      listenerCloseR = (\<lambda>t. None),
      writeR = (\<lambda>c m t. None),
      readR = (\<lambda>c t. (Some PingResponse, None))\<rparr>"

definition envConnCloseFails :: env where
  "envConnCloseFails = envQuiet\<lparr>connCloseR := (\<lambda>c t. Some closeFailure)\<rparr>"

definition envWrongReply :: env where
  "envWrongReply = envQuiet\<lparr>readR := (\<lambda>c t. (Some (OtherMsg 7), None))\<rparr>"

definition envBrokenPipe :: env where
  "envBrokenPipe =
     envQuiet\<lparr>writeR := (\<lambda>c m t. Some (External (IOError False ''broken pipe'')))\<rparr>"

text \<open>
  A connection whose write fails with the value \<^verbatim>\<open>privval.ErrUnexpectedResponse\<close>.
\<close>

definition envSentinelWrite :: env where
  "envSentinelWrite = envQuiet\<lparr>writeR := (\<lambda>c m t. Some ErrUnexpectedResponse)\<rparr>"

definition envAcceptFails :: env where
  "envAcceptFails =
     envBrokenPipe\<lparr>acceptR := (\<lambda>t. AcceptReturns None (Some (IOError True ''accept timeout'')))\<rparr>"

definition envListenerClosed :: env where
  "envListenerClosed = envBrokenPipe\<lparr>acceptR := (\<lambda>t. AcceptReturns None None)\<rparr>"

text \<open>
  A fresh endpoint on listener 0, and the same endpoint holding connection 1.
\<close>

definition fresh0 :: endpoint where
  "fresh0 = NewSignerListenerEndpoint (Some 0)"

definition connected0 :: endpoint where
  "connected0 = (NewSignerListenerEndpoint (Some 0))\<lparr>conn := Some 1\<rparr>"

text \<open>
  An endpoint as \<^verbatim>\<open>OnStart\<close> leaves it, with cancellation channel 0 and a ticker,
  and the same endpoint after one \<^verbatim>\<open>OnStop\<close> in the quiet environment.
\<close>

definition started0 :: endpoint where
  "started0 = connected0\<lparr>cancelPingCh := Some 0, pingTicker := Some 2000000000, nextChan := 1\<rparr>"

definition stopped0 :: endpoint where
  "stopped0 =
     started0\<lparr>conn := None, cancelPingCh := None, closedChans := [0], clock := 2,
       trace := [EvCloseChan 0, EvLock, EvConnClose 1, EvListenerClose 0, EvUnlock]\<rparr>"

text \<open>
  A fresh endpoint whose heartbeat period has been set to zero, as
  \<^verbatim>\<open>SignerValidatorEndpointSetHeartbeat(0)\<close> does.
\<close>

definition zeroPeriod0 :: endpoint where
  "zeroPeriod0 = fresh0\<lparr>heartbeatPeriod := 0\<rparr>"

section \<open>Properties\<close>

subsection \<open>Auxiliary facts\<close>

lemmas prim_defs = emit_def advance_def logError_def logInfo_def Lock_def Unlock_def locked_def
  connClose_def listenerClose_def listenerAccept_def marshalWrite_def unmarshalRead_def

lemmas env_defs = envQuiet_def envConnCloseFails_def envWrongReply_def envBrokenPipe_def
  envSentinelWrite_def envAcceptFails_def envListenerClosed_def closeFailure_def fresh0_def connected0_def
  NewSignerListenerEndpoint_def defaultHeartbeatSeconds_def

lemma accepts_append [simp]: "accepts (xs @ ys) = accepts xs + accepts ys"
  by (simp add: accepts_def)

lemma closes_append [simp]: "closes (xs @ ys) = closes xs + closes ys"
  by (simp add: closes_def)

text \<open>
  What \<^verbatim>\<open>SendRequest\<close> does from a state in which the mutex is free, in terms of the
  collaborators' answers.
\<close>

lemma SendRequest_run:
  assumes "\<not> mtx s"
  shows "SendRequest env m s =
     (case conn s of
        None \<Rightarrow>
          Returns (None, Some (Errorf ''endpoint is not connected''))
            (s\<lparr>trace := trace s @ [EvLock, EvUnlock]\<rparr>)
      | Some c \<Rightarrow>
          (case wrapTimeout (writeR env c m (clock s)) of
             Some e \<Rightarrow>
               Returns (None, Some e)
                 (s\<lparr>clock := Suc (clock s), trace := trace s @ [EvLock, EvWrite c m, EvUnlock]\<rparr>)
           | None \<Rightarrow>
               (case wrapTimeout (snd (readR env c (Suc (clock s)))) of
                  Some e \<Rightarrow>
                    Returns (None, Some e)
                      (s\<lparr>clock := Suc (Suc (clock s)),
                         trace := trace s @ [EvLock, EvWrite c m, EvRead c, EvUnlock]\<rparr>)
                | None \<Rightarrow>
                    Returns (fst (readR env c (Suc (clock s))), None)
                      (s\<lparr>clock := Suc (Suc (clock s)),
                         trace := trace s @ [EvLock, EvWrite c m, EvRead c, EvUnlock]\<rparr>))))"
  using assms
  by (simp add: SendRequest_def sendRequestBody_def writeMessage_def readMessage_def prim_defs
      split: option.splits prod.splits)

lemma SendRequest_Blocks: "mtx s \<Longrightarrow> SendRequest env m s = Blocks"
  by (simp add: SendRequest_def prim_defs)

lemma wrapTimeout_None: "wrapTimeout r = None \<longleftrightarrow> r = None"
  by (simp add: wrapTimeout_def split: option.splits error.splits)

lemma wrapTimeout_unexpected:
  "wrapTimeout r = Some ErrUnexpectedResponse \<longleftrightarrow> r = Some ErrUnexpectedResponse"
  by (simp add: wrapTimeout_def split: option.splits error.splits)

lemma SendRequest_accepts:
  assumes "SendRequest env m s = Returns r s'"
  shows "accepts (trace s') = accepts (trace s)"
proof (cases "mtx s")
  case True
  with assms show ?thesis by (simp add: SendRequest_Blocks)
next
  case False
  have "traceAfter (SendRequest env m s) = trace s @ [EvLock, EvUnlock]
      \<or> (\<exists>c. traceAfter (SendRequest env m s) = trace s @ [EvLock, EvWrite c m, EvUnlock])
      \<or> (\<exists>c. traceAfter (SendRequest env m s) = trace s @ [EvLock, EvWrite c m, EvRead c, EvUnlock])"
    using False by (simp add: SendRequest_run traceAfter_def split: option.splits)
  moreover have "traceAfter (SendRequest env m s) = trace s'"
    using assms by (simp add: traceAfter_def)
  ultimately show ?thesis
    by (auto simp: accepts_def)
qed

lemma ping_accepts:
  assumes "ping env s = Returns r s'"
  shows "accepts (trace s') = accepts (trace s)"
proof (cases "SendRequest env PingRequest s")
  case (Returns a s1)
  with assms have "s' = s1"
    by (cases a) (simp add: ping_def split: option.splits if_splits)
  with Returns show ?thesis by (simp add: SendRequest_accepts)
next
  case Panics
  with assms show ?thesis by (simp add: ping_def)
next
  case Blocks
  with assms show ?thesis by (simp add: ping_def)
qed

text \<open>
  What \<^verbatim>\<open>connect\<close> does from a state in which the mutex is free and a listener is
  held.
\<close>

lemma connect_run:
  assumes "\<not> mtx s" "listener s = Some l"
  shows "connect env s =
     (case acceptR env (acceptTime s) of
        AcceptBlocks \<Rightarrow> Blocks
      | AcceptReturns c aerr \<Rightarrow>
          Returns (connectResult c aerr)
            (s\<lparr>conn := c, clock := Suc (acceptTime s),
               trace := trace s @ [EvLock] @ closeOldEvents env s @ [EvAccept l, EvUnlock]\<rparr>))"
proof (cases "conn s")
  case None
  with assms show ?thesis
    by (simp add: connect_def connectBody_def closeOld_def acceptNew_def acceptTime_def
        closeOldEvents_def connectResult_def prim_defs Let_def
        split: option.splits accept_result.splits)
next
  case (Some c0)
  with assms show ?thesis
    by (cases "connCloseR env c0 (clock s)")
       (simp_all add: connect_def connectBody_def closeOld_def acceptNew_def acceptTime_def
        closeOldEvents_def connectResult_def prim_defs Let_def
        split: option.splits accept_result.splits)
qed

lemma connect_Blocks: "mtx s \<Longrightarrow> connect env s = Blocks"
  by (simp add: connect_def prim_defs)

lemma connect_Panics: "\<not> mtx s \<Longrightarrow> listener s = None \<Longrightarrow> connect env s = Panics"
  by (simp add: connect_def connectBody_def acceptNew_def closeOld_def prim_defs
      split: option.splits)

text \<open>
  \<^verbatim>\<open>Close\<close> returns whenever it can take the mutex, and leaves the mutex free and the
  channels as they were.
\<close>

lemma Close_total:
  assumes "\<not> mtx s"
  shows "\<exists>r s'. Close env s = Returns r s'"
  using assms
  by (cases "conn s"; cases "listener s")
     (simp_all add: Close_def closeBody_def closeListenerPart_def prim_defs
       split: option.splits prod.splits)

lemma Close_frame:
  assumes "Close env s = Returns r s'"
  shows "\<not> mtx s' \<and> cancelPingCh s' = cancelPingCh s \<and> closedChans s' = closedChans s
         \<and> closes (trace s') = closes (trace s)"
proof (cases "mtx s")
  case True
  with assms show ?thesis by (simp add: Close_def prim_defs)
next
  case False
  with assms show ?thesis
    by (cases "conn s"; cases "listener s")
       (auto simp add: Close_def closeBody_def closeListenerPart_def prim_defs closes_def
         split: option.splits prod.splits)
qed

text \<open>
  A \<^verbatim>\<open>connect\<close> that returns has taken the mutex, held a listener and made one
  \<^verbatim>\<open>Accept\<close> call, whose answer decides the pair returned and the connection stored.
\<close>

lemma connect_Returns:
  assumes "connect env s = Returns (closed, err) s'"
  shows "\<exists>l c aerr. \<not> mtx s \<and> listener s = Some l
           \<and> acceptR env (acceptTime s) = AcceptReturns c aerr
           \<and> (closed, err) = connectResult c aerr
           \<and> s' = s\<lparr>conn := c, clock := Suc (acceptTime s),
                      trace := trace s @ [EvLock] @ closeOldEvents env s @ [EvAccept l, EvUnlock]\<rparr>"
proof (cases "mtx s")
  case True
  with assms show ?thesis by (simp add: connect_Blocks)
next
  case False
  show ?thesis
  proof (cases "listener s")
    case None
    with assms False show ?thesis by (simp add: connect_Panics)
  next
    case (Some l)
    show ?thesis
    proof (cases "acceptR env (acceptTime s)")
      case AcceptBlocks
      with assms False Some show ?thesis by (simp add: connect_run)
    next
      case (AcceptReturns c aerr)
      with assms False Some show ?thesis by (simp add: connect_run)
    qed
  qed
qed

lemma accepts_Nil [simp]: "accepts [] = 0"
  by (simp add: accepts_def)

lemma accepts_Cons [simp]:
  "accepts (ev # tr) = (case ev of EvAccept _ \<Rightarrow> Suc (accepts tr) | _ \<Rightarrow> accepts tr)"
  by (simp add: accepts_def split: event.splits)

lemma closeOldEvents_accepts [simp]: "accepts (closeOldEvents env s) = 0"
  by (simp add: closeOldEvents_def split: option.splits)

lemma connect_accepts:
  assumes "connect env s = Returns r s'"
  shows "accepts (trace s') = Suc (accepts (trace s))"
proof -
  obtain closed err where r: "r = (closed, err)" by (cases r)
  from connect_Returns [OF assms [unfolded r]] show ?thesis
    by auto
qed

lemma connect_conn:
  assumes "connect env s = Returns (closed, err) s'"
  shows "closed \<longrightarrow> conn s' = None \<and> err = None"
    and "err = None \<and> \<not> closed \<longrightarrow> conn s' \<noteq> None"
  using connect_Returns [OF assms]
  by (auto simp: connectResult_def split: option.splits)

lemma connect_keeps:
  assumes "connect env s = Returns r s'"
  shows "heartbeatPeriod s' = heartbeatPeriod s \<and> nextChan s' = nextChan s
         \<and> cancelPingCh s' = cancelPingCh s \<and> \<not> mtx s'
         \<and> count_list (trace s') EvGoHeartbeat = count_list (trace s) EvGoHeartbeat"
proof -
  obtain closed err where r: "r = (closed, err)" by (cases r)
  from connect_Returns [OF assms [unfolded r]] show ?thesis
    by (auto simp: closeOldEvents_def split: option.splits)
qed

lemma connect_error_External:
  assumes "connect env s = Returns (closed, Some e) s'"
  shows "\<exists>x. e = External x"
  using connect_Returns [OF assms]
  by (auto simp: connectResult_def split: option.splits)

lemma closeChan_twice_Panics:
  assumes "closeChan ch s = Returns u s1"
  shows "closeChan ch s1 = Panics"
  using assms by (auto simp: closeChan_def emit_def split: if_splits)

lemma closes_Nil [simp]: "closes [] = 0"
  by (simp add: closes_def)

lemma closes_Cons [simp]:
  "closes (ev # tr) = (case ev of EvCloseChan _ \<Rightarrow> Suc (closes tr) | _ \<Rightarrow> closes tr)"
  by (simp add: closes_def split: event.splits)

lemma OnStop_without_signal:
  assumes "cancelPingCh s = None" and "\<not> mtx s"
  shows "\<exists>s2. OnStop env s = Returns () s2 \<and> cancelPingCh s2 = None \<and> \<not> mtx s2
              \<and> closedChans s2 = closedChans s \<and> closes (trace s2) = closes (trace s)"
proof -
  from Close_total [OF assms(2)] obtain r s2 where c: "Close env s = Returns r s2" by blast
  from Close_frame [OF c] assms(1) c show ?thesis
    by (simp add: OnStop_def)
qed

lemma OnStop_times_without_signal:
  assumes "cancelPingCh s = None" and "\<not> mtx s"
  shows "\<exists>s2. OnStop_times env n s = Returns () s2 \<and> cancelPingCh s2 = None \<and> \<not> mtx s2
              \<and> closedChans s2 = closedChans s \<and> closes (trace s2) = closes (trace s)"
  using assms
proof (induction n arbitrary: s)
  case 0
  then show ?case by simp
next
  case (Suc n)
  from OnStop_without_signal [OF Suc.prems, of env]
  obtain s1 where one: "OnStop env s = Returns () s1" and c: "cancelPingCh s1 = None"
    and m: "\<not> mtx s1" and cc: "closedChans s1 = closedChans s"
    and cl: "closes (trace s1) = closes (trace s)"
    by blast
  from Suc.IH [OF c m]
  obtain s2 where "OnStop_times env n s1 = Returns () s2" and "cancelPingCh s2 = None"
    and "\<not> mtx s2" and "closedChans s2 = closedChans s1"
    and "closes (trace s2) = closes (trace s1)"
    by blast
  with one cc cl show ?case by simp
qed

lemma SendRequest_Returns:
  assumes "SendRequest env m s = Returns (r, err) s'"
  shows "(conn s = None \<and> r = None \<and> err = Some (Errorf ''endpoint is not connected''))
       \<or> (\<exists>c. conn s = Some c
             \<and> ((r = None \<and> err \<noteq> None \<and> err = wrapTimeout (writeR env c m (clock s))
                  \<and> s' = s\<lparr>clock := Suc (clock s),
                             trace := trace s @ [EvLock, EvWrite c m, EvUnlock]\<rparr>)
               \<or> (writeR env c m (clock s) = None
                  \<and> err = wrapTimeout (snd (readR env c (Suc (clock s))))
                  \<and> (err = None \<longrightarrow> r = fst (readR env c (Suc (clock s))))
                  \<and> s' = s\<lparr>clock := Suc (Suc (clock s)),
                             trace := trace s @ [EvLock, EvWrite c m, EvRead c, EvUnlock]\<rparr>)))"
proof (cases "mtx s")
  case True
  with assms show ?thesis by (simp add: SendRequest_Blocks)
next
  case False
  show ?thesis
  proof (cases "conn s")
    case None
    with assms False show ?thesis by (simp add: SendRequest_run)
  next
    case (Some c)
    show ?thesis
    proof (cases "wrapTimeout (writeR env c m (clock s))")
      case w: (Some e1)
      with assms False Some show ?thesis by (auto simp: SendRequest_run)
    next
      case w: None
      then have w0: "writeR env c m (clock s) = None" by (simp add: wrapTimeout_None)
      show ?thesis
      proof (cases "wrapTimeout (snd (readR env c (Suc (clock s))))")
        case None
        with assms False Some w w0 show ?thesis by (auto simp: SendRequest_run)
      next
        case rd: (Some e2)
        with assms False Some w w0 show ?thesis by (auto simp: SendRequest_run)
      qed
    qed
  qed
qed

text \<open>
  A goroutine waiting in its \<^verbatim>\<open>select\<close> is woken by the \<^verbatim>\<open>OnStop\<close> of another
  goroutine, although \<^verbatim>\<open>OnStop\<close> has set the field to nil by then: it stops the ticker
  and returns.
\<close>

lemma heartbeat_cancelled_by_OnStop:
  "heartbeat_loop envQuiet [StopCalled, CancelPingCh] started0 =
     Returns Terminated (stopped0\<lparr>trace := trace stopped0 @ [EvTickerStop]\<rparr>)"
  by (simp add: heartbeat_loop_def chanReady_def OnStop_def closeChan_def Close_def
      closeBody_def closeListenerPart_def prim_defs env_defs started0_def stopped0_def)

subsection \<open>Close\<close>

text \<open>
  A failed close of the connection ends \<^verbatim>\<open>Close\<close> before the listener is reached.
  On an endpoint that holds connection 1 and listener 0, with a connection whose
  \<^verbatim>\<open>Close\<close> fails, \<^verbatim>\<open>Close\<close> returns that error, keeps the connection in its
  field, and the listener's \<^verbatim>\<open>Close\<close> is never called.
\<close>

theorem Close_conn_failure_skips_listener:
  "conn connected0 = Some 1 \<and> listener connected0 = Some 0
   \<and> connCloseR envConnCloseFails 1 (clock connected0) = Some closeFailure
   \<and> Close envConnCloseFails connected0 =
         Returns (Some (External closeFailure))
           (connected0\<lparr>clock := 1,
              trace := [EvLock, EvConnClose 1,
                        EvLogError ''Closing connection'' (External closeFailure), EvUnlock]\<rparr>)
   \<and> EvListenerClose 0 \<notin> set (traceAfter (Close envConnCloseFails connected0))"
  by (simp add: Close_def closeBody_def closeListenerPart_def prim_defs env_defs traceAfter_def)

text \<open>
  Claim C1, as the code has it. On an endpoint that holds a connection and a listener,
  \<^verbatim>\<open>Close\<close> closes the connection first. If that fails, it logs the failure and
  returns the error at once: the connection stays in its field and the listener's
  \<^verbatim>\<open>Close\<close> is not called. If it succeeds, the field is cleared and the listener's
  \<^verbatim>\<open>Close\<close> is called once; its failure is logged and returned.
\<close>

theorem Close_conn_first_then_listener:
  assumes "\<not> mtx s" "conn s = Some c" "listener s = Some l"
  shows "Close env s =
     (case connCloseR env c (clock s) of
        Some e \<Rightarrow>
          Returns (Some (External e))
            (s\<lparr>clock := Suc (clock s),
               trace := trace s @ [EvLock, EvConnClose c,
                          EvLogError ''Closing connection'' (External e), EvUnlock]\<rparr>)
      | None \<Rightarrow>
          (case listenerCloseR env (Suc (clock s)) of
             Some e \<Rightarrow>
               Returns (Some (External e))
                 (s\<lparr>conn := None, clock := Suc (Suc (clock s)),
                    trace := trace s @ [EvLock, EvConnClose c, EvListenerClose l,
                               EvLogError ''Closing Listener'' (External e), EvUnlock]\<rparr>)
           | None \<Rightarrow>
               Returns None
                 (s\<lparr>conn := None, clock := Suc (Suc (clock s)),
                    trace := trace s @ [EvLock, EvConnClose c, EvListenerClose l, EvUnlock]\<rparr>)))"
  using assms
  by (simp add: Close_def closeBody_def closeListenerPart_def prim_defs split: option.splits)

theorem Close_conn_first_then_listener_witness:
  "\<not> mtx connected0 \<and> conn connected0 = Some 1 \<and> listener connected0 = Some 0
   \<and> Close envQuiet connected0 =
       Returns None
         (connected0\<lparr>conn := None, clock := 2,
            trace := [EvLock, EvConnClose 1, EvListenerClose 0, EvUnlock]\<rparr>)
   \<and> Close envConnCloseFails connected0 =
       Returns (Some (External closeFailure))
         (connected0\<lparr>clock := 1,
            trace := [EvLock, EvConnClose 1,
                      EvLogError ''Closing connection'' (External closeFailure), EvUnlock]\<rparr>)"
  using Close_conn_first_then_listener [of connected0 1 0 envQuiet]
        Close_conn_first_then_listener [of connected0 1 0 envConnCloseFails]
  by (simp add: env_defs)

subsection \<open>SendRequest\<close>

text \<open>
  Claim C4. \<^verbatim>\<open>SendRequest\<close> takes the mutex, writes, reads, releases the mutex, and
  returns the decoded response or the first error: when the write fails (also for want
  of a connection) its error is returned with no response and no read is attempted;
  when the read fails its error is returned with no response.
\<close>

theorem SendRequest_write_then_read:
  assumes "\<not> mtx s"
  shows "SendRequest env m s =
     (case conn s of
        None \<Rightarrow>
          Returns (None, Some (Errorf ''endpoint is not connected''))
            (s\<lparr>trace := trace s @ [EvLock, EvUnlock]\<rparr>)
      | Some c \<Rightarrow>
          (case wrapTimeout (writeR env c m (clock s)) of
             Some e \<Rightarrow>
               Returns (None, Some e)
                 (s\<lparr>clock := Suc (clock s), trace := trace s @ [EvLock, EvWrite c m, EvUnlock]\<rparr>)
           | None \<Rightarrow>
               (case wrapTimeout (snd (readR env c (Suc (clock s)))) of
                  Some e \<Rightarrow>
                    Returns (None, Some e)
                      (s\<lparr>clock := Suc (Suc (clock s)),
                         trace := trace s @ [EvLock, EvWrite c m, EvRead c, EvUnlock]\<rparr>)
                | None \<Rightarrow>
                    Returns (fst (readR env c (Suc (clock s))), None)
                      (s\<lparr>clock := Suc (Suc (clock s)),
                         trace := trace s @ [EvLock, EvWrite c m, EvRead c, EvUnlock]\<rparr>))))"
  using assms by (rule SendRequest_run)

theorem SendRequest_write_then_read_witness:
  "\<not> mtx connected0
   \<and> SendRequest envQuiet (OtherMsg 3) connected0 =
         Returns (Some PingResponse, None)
           (connected0\<lparr>clock := 2,
              trace := [EvLock, EvWrite 1 (OtherMsg 3), EvRead 1, EvUnlock]\<rparr>)
   \<and> SendRequest envBrokenPipe (OtherMsg 3) connected0 =
         Returns (None, Some (External (IOError False ''broken pipe'')))
           (connected0\<lparr>clock := 1, trace := [EvLock, EvWrite 1 (OtherMsg 3), EvUnlock]\<rparr>)"
  using SendRequest_write_then_read [of connected0 envQuiet "OtherMsg 3"]
        SendRequest_write_then_read [of connected0 envBrokenPipe "OtherMsg 3"]
  by (simp add: env_defs wrapTimeout_def)

text \<open>
  Claim C8. With no connection held, \<^verbatim>\<open>writeMessage\<close> fails with the not-connected
  error, and \<^verbatim>\<open>SendRequest\<close> hands that error to its caller having attempted neither
  a write nor a read on any connection.
\<close>

theorem writeMessage_not_connected:
  assumes "conn s = None"
  shows "writeMessage env m s = Returns (Some (Errorf ''endpoint is not connected'')) s
         \<and> (\<not> mtx s \<longrightarrow>
              SendRequest env m s =
                Returns (None, Some (Errorf ''endpoint is not connected''))
                  (s\<lparr>trace := trace s @ [EvLock, EvUnlock]\<rparr>))"
  using assms by (simp add: writeMessage_def SendRequest_run)

theorem writeMessage_not_connected_witness:
  "conn fresh0 = None \<and> \<not> mtx fresh0
   \<and> writeMessage envQuiet PingRequest fresh0 =
         Returns (Some (Errorf ''endpoint is not connected'')) fresh0
   \<and> SendRequest envQuiet PingRequest fresh0 =
         Returns (None, Some (Errorf ''endpoint is not connected''))
           (fresh0\<lparr>trace := [EvLock, EvUnlock]\<rparr>)"
  using writeMessage_not_connected [of fresh0 envQuiet PingRequest]
  by (simp add: env_defs)

subsection \<open>The heartbeat loop\<close>

text \<open>
  Claim C2. On a tick whose ping fails with the unexpected-response error, the tick
  ends the loop at once: the loop returns with the state the ping left plus the log
  line, whatever the rest of the schedule, and no \<^verbatim>\<open>Accept\<close> call, hence no
  \<^verbatim>\<open>connect()\<close>, has been made since the tick began.
\<close>

theorem heartbeat_unexpected_response_terminates:
  assumes "ping env s = Returns (Some ErrUnexpectedResponse) s1"
  shows "heartbeat_tick env s = Returns Terminated (logError ''Ping'' ErrUnexpectedResponse s1)
         \<and> heartbeat_loop env (TickerC # sched) s =
             Returns Terminated (logError ''Ping'' ErrUnexpectedResponse s1)
         \<and> accepts (trace (logError ''Ping'' ErrUnexpectedResponse s1)) = accepts (trace s)"
proof -
  have tick: "heartbeat_tick env s = Returns Terminated (logError ''Ping'' ErrUnexpectedResponse s1)"
    using assms by (simp add: heartbeat_tick_def Let_def)
  have "accepts (trace s1) = accepts (trace s)"
    using assms by (rule ping_accepts)
  then have "accepts (trace (logError ''Ping'' ErrUnexpectedResponse s1)) = accepts (trace s)"
    by (simp add: logError_def emit_def accepts_def)
  with tick show ?thesis by (simp add: heartbeat_loop_def)
qed

theorem heartbeat_unexpected_response_terminates_witness:
  "ping envWrongReply connected0 =
     Returns (Some ErrUnexpectedResponse)
       (connected0\<lparr>clock := 2, trace := [EvLock, EvWrite 1 PingRequest, EvRead 1, EvUnlock]\<rparr>)
   \<and> heartbeat_loop envWrongReply [TickerC, TickerC, CancelPingCh] connected0 =
       Returns Terminated
         (connected0\<lparr>clock := 2,
            trace := [EvLock, EvWrite 1 PingRequest, EvRead 1, EvUnlock,
                      EvLogError ''Ping'' ErrUnexpectedResponse]\<rparr>)"
proof -
  have p: "ping envWrongReply connected0 =
     Returns (Some ErrUnexpectedResponse)
       (connected0\<lparr>clock := 2, trace := [EvLock, EvWrite 1 PingRequest, EvRead 1, EvUnlock]\<rparr>)"
    by (simp add: ping_def SendRequest_run env_defs wrapTimeout_def)
  from heartbeat_unexpected_response_terminates [OF p, of "[TickerC, CancelPingCh]"] p
  show ?thesis by (simp add: logError_def emit_def)
qed

text \<open>
  Claim C3. On a tick whose ping fails with any other error, and whose \<^verbatim>\<open>connect()\<close>
  returns, exactly one \<^verbatim>\<open>connect()\<close> is made: if it returns an error the loop goes on
  to the next tick, if it reports the listener closed the loop ends, otherwise the
  loop goes on with the connection just accepted in place.
\<close>

theorem heartbeat_transport_error_reconnects_once:
  assumes "ping env s = Returns (Some e) s1"
      and "e \<noteq> ErrUnexpectedResponse"
      and "connect env (logError ''Ping'' e s1) = Returns (closed, err) s2"
  shows "heartbeat_tick env s =
           (case err of
              Some e' \<Rightarrow> Returns Probing (logError ''Reconnecting to remote signer failed'' e' s2)
            | None \<Rightarrow>
                if closed then Returns Terminated (logInfo ''listener is closing'' s2)
                else Returns Probing (logInfo ''Re-created connection to remote signer'' s2))
         \<and> heartbeat_loop env (TickerC # sched) s =
           (case err of
              Some e' \<Rightarrow>
                heartbeat_loop env sched (logError ''Reconnecting to remote signer failed'' e' s2)
            | None \<Rightarrow>
                if closed then Returns Terminated (logInfo ''listener is closing'' s2)
                else heartbeat_loop env sched (logInfo ''Re-created connection to remote signer'' s2))
         \<and> accepts (traceAfter (heartbeat_tick env s)) = Suc (accepts (trace s))
         \<and> (err = None \<and> \<not> closed \<longrightarrow> conn s2 \<noteq> None)"
proof -
  have tick: "heartbeat_tick env s =
           (case err of
              Some e' \<Rightarrow> Returns Probing (logError ''Reconnecting to remote signer failed'' e' s2)
            | None \<Rightarrow>
                if closed then Returns Terminated (logInfo ''listener is closing'' s2)
                else Returns Probing (logInfo ''Re-created connection to remote signer'' s2))"
    using assms by (simp add: heartbeat_tick_def reconnect_def Let_def)
  have loop: "heartbeat_loop env (TickerC # sched) s =
           (case err of
              Some e' \<Rightarrow>
                heartbeat_loop env sched (logError ''Reconnecting to remote signer failed'' e' s2)
            | None \<Rightarrow>
                if closed then Returns Terminated (logInfo ''listener is closing'' s2)
                else heartbeat_loop env sched (logInfo ''Re-created connection to remote signer'' s2))"
    by (simp add: tick heartbeat_loop_def split: option.splits)
  have "accepts (trace s1) = accepts (trace s)"
    using assms(1) by (rule ping_accepts)
  moreover have "accepts (trace s2) = Suc (accepts (trace (logError ''Ping'' e s1)))"
    using assms(3) by (rule connect_accepts)
  ultimately have a: "accepts (trace s2) = Suc (accepts (trace s))"
    by (simp add: logError_def emit_def accepts_def)
  have cnt: "accepts (traceAfter (heartbeat_tick env s)) = Suc (accepts (trace s))"
    using a by (simp add: tick traceAfter_def logError_def logInfo_def emit_def accepts_def
        split: option.splits)
  from connect_conn(2) [OF assms(3)] tick loop cnt show ?thesis by simp
qed

theorem heartbeat_transport_error_reconnects_once_witness:
  "heartbeat_tick envBrokenPipe connected0 =
     Returns Probing
       (connected0\<lparr>conn := Some 3, clock := 3,
          trace := [EvLock, EvWrite 1 PingRequest, EvUnlock,
                    EvLogError ''Ping'' (External (IOError False ''broken pipe'')),
                    EvLock, EvConnClose 1, EvAccept 0, EvUnlock,
                    EvLogInfo ''Re-created connection to remote signer'']\<rparr>)
   \<and> heartbeat_tick envAcceptFails connected0 =
     Returns Probing
       (connected0\<lparr>conn := None, clock := 3,
          trace := [EvLock, EvWrite 1 PingRequest, EvUnlock,
                    EvLogError ''Ping'' (External (IOError False ''broken pipe'')),
                    EvLock, EvConnClose 1, EvAccept 0, EvUnlock,
                    EvLogError ''Reconnecting to remote signer failed''
                      (External (IOError True ''accept timeout''))]\<rparr>)
   \<and> heartbeat_tick envListenerClosed connected0 =
     Returns Terminated
       (connected0\<lparr>conn := None, clock := 3,
          trace := [EvLock, EvWrite 1 PingRequest, EvUnlock,
                    EvLogError ''Ping'' (External (IOError False ''broken pipe'')),
                    EvLock, EvConnClose 1, EvAccept 0, EvUnlock,
                    EvLogInfo ''listener is closing'']\<rparr>)
   \<and> accepts (traceAfter (heartbeat_tick envBrokenPipe connected0)) = Suc (accepts (trace connected0))"
proof -
  let ?e = "External (IOError False ''broken pipe'')"
  let ?s1 = "connected0\<lparr>clock := 1, trace := [EvLock, EvWrite 1 PingRequest, EvUnlock]\<rparr>"
  let ?tr = "[EvLock, EvWrite 1 PingRequest, EvUnlock, EvLogError ''Ping'' ?e,
              EvLock, EvConnClose 1, EvAccept 0, EvUnlock]"
  have ne: "?e \<noteq> ErrUnexpectedResponse" by simp
  have p1: "ping envBrokenPipe connected0 = Returns (Some ?e) ?s1"
    by (simp add: ping_def SendRequest_run env_defs wrapTimeout_def)
  have p2: "ping envAcceptFails connected0 = Returns (Some ?e) ?s1"
    by (simp add: ping_def SendRequest_run env_defs wrapTimeout_def)
  have p3: "ping envListenerClosed connected0 = Returns (Some ?e) ?s1"
    by (simp add: ping_def SendRequest_run env_defs wrapTimeout_def)
  have c1: "connect envBrokenPipe (logError ''Ping'' ?e ?s1) =
      Returns (False, None) (connected0\<lparr>conn := Some 3, clock := 3, trace := ?tr\<rparr>)"
    by (simp add: connect_run [where l = 0] env_defs acceptTime_def closeOldEvents_def
        connectResult_def logError_def emit_def)
  have c2: "connect envAcceptFails (logError ''Ping'' ?e ?s1) =
      Returns (False, Some (External (IOError True ''accept timeout'')))
        (connected0\<lparr>conn := None, clock := 3, trace := ?tr\<rparr>)"
    by (simp add: connect_run [where l = 0] env_defs acceptTime_def closeOldEvents_def
        connectResult_def logError_def emit_def)
  have c3: "connect envListenerClosed (logError ''Ping'' ?e ?s1) =
      Returns (True, None) (connected0\<lparr>conn := None, clock := 3, trace := ?tr\<rparr>)"
    by (simp add: connect_run [where l = 0] env_defs acceptTime_def closeOldEvents_def
        connectResult_def logError_def emit_def)
  note w1 = heartbeat_transport_error_reconnects_once [OF p1 ne c1, of "[]"]
  note w2 = heartbeat_transport_error_reconnects_once [OF p2 ne c2, of "[]"]
  note w3 = heartbeat_transport_error_reconnects_once [OF p3 ne c3, of "[]"]
  have t1: "heartbeat_tick envBrokenPipe connected0 =
     Returns Probing
       (connected0\<lparr>conn := Some 3, clock := 3,
          trace := ?tr @ [EvLogInfo ''Re-created connection to remote signer'']\<rparr>)"
    using w1 [THEN conjunct1] by (simp add: logInfo_def emit_def)
  have t2: "heartbeat_tick envAcceptFails connected0 =
     Returns Probing
       (connected0\<lparr>conn := None, clock := 3,
          trace := ?tr @ [EvLogError ''Reconnecting to remote signer failed''
                            (External (IOError True ''accept timeout''))]\<rparr>)"
    using w2 [THEN conjunct1] by (simp add: logError_def emit_def)
  have t3: "heartbeat_tick envListenerClosed connected0 =
     Returns Terminated
       (connected0\<lparr>conn := None, clock := 3,
          trace := ?tr @ [EvLogInfo ''listener is closing'']\<rparr>)"
    using w3 [THEN conjunct1] by (simp add: logInfo_def emit_def)
  have a1: "accepts (traceAfter (heartbeat_tick envBrokenPipe connected0)) =
      Suc (accepts (trace connected0))"
    by (rule w1 [THEN conjunct2, THEN conjunct2, THEN conjunct1])
  from t1 t2 t3 a1 show ?thesis by simp
qed

subsection \<open>connect\<close>

text \<open>
  Claim C5. When \<^verbatim>\<open>connect\<close> is called with a connection held, that connection's
  \<^verbatim>\<open>Close\<close> is called before \<^verbatim>\<open>Accept\<close>, the field still holds the old
  connection after the closing step, and the connection field is overwritten only with what
  \<^verbatim>\<open>Accept\<close> returned. A failed close adds a log line; the pair returned depends
  on the answer of \<^verbatim>\<open>Accept\<close> alone.
\<close>

theorem connect_closes_old_before_storing_new:
  assumes "\<not> mtx s" and "conn s = Some c" and "listener s = Some l"
      and "acceptR env (Suc (clock s)) = AcceptReturns c' aerr"
  shows "connect env s =
           Returns (case aerr of Some e \<Rightarrow> (False, Some (External e)) | None \<Rightarrow> (c' = None, None))
             (s\<lparr>conn := c', clock := Suc (Suc (clock s)),
                trace := trace s @ [EvLock, EvConnClose c] @
                  (case connCloseR env c (clock s) of
                     None \<Rightarrow> []
                   | Some e \<Rightarrow>
                       [EvLogError ''error closing socket val connection during connect''
                          (External e)]) @
                  [EvAccept l, EvUnlock]\<rparr>)
         \<and> conn (closeOld env s) = Some c"
proof -
  have "conn (closeOld env s) = Some c"
    using assms(2) by (simp add: closeOld_def prim_defs split: option.splits)
  moreover have "connect env s =
           Returns (case aerr of Some e \<Rightarrow> (False, Some (External e)) | None \<Rightarrow> (c' = None, None))
             (s\<lparr>conn := c', clock := Suc (Suc (clock s)),
                trace := trace s @ [EvLock, EvConnClose c] @
                  (case connCloseR env c (clock s) of
                     None \<Rightarrow> []
                   | Some e \<Rightarrow>
                       [EvLogError ''error closing socket val connection during connect''
                          (External e)]) @
                  [EvAccept l, EvUnlock]\<rparr>)"
    using assms
    by (simp add: connect_run [where l = l] acceptTime_def closeOldEvents_def connectResult_def
        split: option.splits)
  ultimately show ?thesis by simp
qed

theorem connect_closes_old_before_storing_new_witness:
  "\<not> mtx connected0 \<and> conn connected0 = Some 1 \<and> listener connected0 = Some 0
   \<and> acceptR envConnCloseFails (Suc (clock connected0)) = AcceptReturns (Some 2) None
   \<and> connCloseR envConnCloseFails 1 (clock connected0) = Some closeFailure
   \<and> connect envConnCloseFails connected0 =
       Returns (False, None)
         (connected0\<lparr>conn := Some 2, clock := 2,
            trace := [EvLock, EvConnClose 1,
                      EvLogError ''error closing socket val connection during connect''
                        (External closeFailure),
                      EvAccept 0, EvUnlock]\<rparr>)"
  using connect_closes_old_before_storing_new
          [of connected0 1 0 envConnCloseFails "Some 2" None]
  by (simp add: env_defs)

text \<open>
  Claim C9. Under the listener's contract, a \<^verbatim>\<open>connect\<close> that returns an error or
  reports the listener closed leaves the connection field nil, so that the next
  \<^verbatim>\<open>SendRequest\<close> fails as not connected without touching any connection; a
  connection is held on return only when \<^verbatim>\<open>connect\<close> returns \<^verbatim>\<open>(false, nil)\<close>.
\<close>

theorem connect_failure_leaves_no_connection:
  assumes "connect env s = Returns (closed, err) s'"
      and "acceptContract (acceptR env (acceptTime s))"
  shows "(closed \<or> err \<noteq> None \<longrightarrow>
            conn s' = None
            \<and> SendRequest env m s' =
                Returns (None, Some (Errorf ''endpoint is not connected''))
                  (s'\<lparr>trace := trace s' @ [EvLock, EvUnlock]\<rparr>))
         \<and> (conn s' \<noteq> None \<longrightarrow> \<not> closed \<and> err = None)"
proof -
  from connect_Returns [OF assms(1)] obtain l c aerr where
    acc: "acceptR env (acceptTime s) = AcceptReturns c aerr"
    and res: "(closed, err) = connectResult c aerr"
    and s': "s' = s\<lparr>conn := c, clock := Suc (acceptTime s),
                   trace := trace s @ [EvLock] @ closeOldEvents env s @ [EvAccept l, EvUnlock]\<rparr>"
    and free: "\<not> mtx s"
    by blast
  have cs: "conn s' = c" and m: "\<not> mtx s'" using s' free by simp_all
  from assms(2) acc have ctr: "aerr = None \<or> c = None" by simp
  have none: "closed \<or> err \<noteq> None \<longrightarrow> c = None"
    using res ctr by (auto simp: connectResult_def split: option.splits)
  have "closed \<or> err \<noteq> None \<longrightarrow>
          SendRequest env m s' =
            Returns (None, Some (Errorf ''endpoint is not connected''))
              (s'\<lparr>trace := trace s' @ [EvLock, EvUnlock]\<rparr>)"
    using none cs m by (simp add: SendRequest_run)
  with none cs show ?thesis by auto
qed

theorem connect_failure_leaves_no_connection_witness:
  "acceptContract (acceptR envAcceptFails (acceptTime connected0))
   \<and> connect envAcceptFails connected0 =
       Returns (False, Some (External (IOError True ''accept timeout'')))
         (connected0\<lparr>conn := None, clock := 2,
            trace := [EvLock, EvConnClose 1, EvAccept 0, EvUnlock]\<rparr>)
   \<and> SendRequest envAcceptFails PingRequest
         (connected0\<lparr>conn := None, clock := 2,
            trace := [EvLock, EvConnClose 1, EvAccept 0, EvUnlock]\<rparr>) =
       Returns (None, Some (Errorf ''endpoint is not connected''))
         (connected0\<lparr>conn := None, clock := 2,
            trace := [EvLock, EvConnClose 1, EvAccept 0, EvUnlock, EvLock, EvUnlock]\<rparr>)"
proof -
  have h: "acceptContract (acceptR envAcceptFails (acceptTime connected0))"
    by (simp add: env_defs)
  have c: "connect envAcceptFails connected0 =
       Returns (False, Some (External (IOError True ''accept timeout'')))
         (connected0\<lparr>conn := None, clock := 2,
            trace := [EvLock, EvConnClose 1, EvAccept 0, EvUnlock]\<rparr>)"
    by (simp add: connect_run [where l = 0] env_defs acceptTime_def closeOldEvents_def
        connectResult_def)
  from connect_failure_leaves_no_connection [OF c h, of PingRequest] h c
  show ?thesis by simp
qed

subsection \<open>OnStart and OnStop\<close>

text \<open>
  \<^verbatim>\<open>time.NewTicker\<close> panics on a period that is not positive. With the period set to
  zero and a \<^verbatim>\<open>connect\<close> that succeeds, \<^verbatim>\<open>OnStart\<close> panics instead of returning.
\<close>

theorem OnStart_zero_period_panics:
  "heartbeatPeriod zeroPeriod0 = 0
   \<and> connect envQuiet zeroPeriod0 =
     Returns (False, None)
       (zeroPeriod0\<lparr>conn := Some 1, clock := 1, trace := [EvLock, EvAccept 0, EvUnlock]\<rparr>)
   \<and> OnStart envQuiet zeroPeriod0 = Panics"
proof -
  have c: "connect envQuiet zeroPeriod0 =
     Returns (False, None)
       (zeroPeriod0\<lparr>conn := Some 1, clock := 1, trace := [EvLock, EvAccept 0, EvUnlock]\<rparr>)"
    by (simp add: connect_run [where l = 0] env_defs zeroPeriod0_def acceptTime_def
        closeOldEvents_def connectResult_def)
  have "OnStart envQuiet zeroPeriod0 = Panics"
    by (simp add: OnStart_def c newTicker_def makeChan_def emit_def)
       (simp add: zeroPeriod0_def)
  with c show ?thesis by (simp add: zeroPeriod0_def)
qed

text \<open>
  Claim C6, as the code has it. \<^verbatim>\<open>OnStart\<close> follows its \<^verbatim>\<open>connect\<close>: an error is
  logged and returned and no heartbeat loop is launched; a closed listener gives the
  error \<open>listener is closed\<close>, which no \<^verbatim>\<open>connect\<close> returns, and no heartbeat loop
  is launched; otherwise, with a positive heartbeat period, the cancellation channel
  is made, the ticker is started, the heartbeat loop is launched once and nil is
  returned, and with a period that is not positive \<^verbatim>\<open>OnStart\<close> panics.
\<close>

theorem OnStart_cases:
  assumes "connect env s = Returns (closed, err) s1"
  shows "OnStart env s =
           (case err of
              Some e \<Rightarrow> Returns (Some e) (s1\<lparr>trace := trace s1 @ [EvLogError ''OnStart'' e]\<rparr>)
            | None \<Rightarrow>
                if closed then Returns (Some (Errorf ''listener is closed'')) s1
                else if heartbeatPeriod s \<le> 0 then Panics
                else Returns None
                       (s1\<lparr>cancelPingCh := Some (nextChan s1),
                           pingTicker := Some (heartbeatPeriod s1),
                           nextChan := Suc (nextChan s1),
                           trace := trace s1 @ [EvMakeChan (nextChan s1),
                                     EvNewTicker (heartbeatPeriod s1), EvGoHeartbeat]\<rparr>))
         \<and> (err \<noteq> None \<or> closed \<longrightarrow>
              count_list (traceAfter (OnStart env s)) EvGoHeartbeat =
              count_list (trace s) EvGoHeartbeat)
         \<and> (err = None \<and> \<not> closed \<and> 0 < heartbeatPeriod s \<longrightarrow>
              count_list (traceAfter (OnStart env s)) EvGoHeartbeat =
              Suc (count_list (trace s) EvGoHeartbeat))
         \<and> err \<noteq> Some (Errorf ''listener is closed'')"
proof -
  note k = connect_keeps [OF assms(1)]
  have run: "OnStart env s =
           (case err of
              Some e \<Rightarrow> Returns (Some e) (s1\<lparr>trace := trace s1 @ [EvLogError ''OnStart'' e]\<rparr>)
            | None \<Rightarrow>
                if closed then Returns (Some (Errorf ''listener is closed'')) s1
                else if heartbeatPeriod s \<le> 0 then Panics
                else Returns None
                       (s1\<lparr>cancelPingCh := Some (nextChan s1),
                           pingTicker := Some (heartbeatPeriod s1),
                           nextChan := Suc (nextChan s1),
                           trace := trace s1 @ [EvMakeChan (nextChan s1),
                                     EvNewTicker (heartbeatPeriod s1), EvGoHeartbeat]\<rparr>))"
    using assms k
    by (simp add: OnStart_def newTicker_def makeChan_def logError_def emit_def
        split: option.splits)
  have none: "err \<noteq> None \<or> closed \<longrightarrow>
              count_list (traceAfter (OnStart env s)) EvGoHeartbeat =
              count_list (trace s) EvGoHeartbeat"
    using k by (auto simp add: run traceAfter_def split: option.splits)
  have one: "err = None \<and> \<not> closed \<and> 0 < heartbeatPeriod s \<longrightarrow>
              count_list (traceAfter (OnStart env s)) EvGoHeartbeat =
              Suc (count_list (trace s) EvGoHeartbeat)"
    using k by (simp add: run traceAfter_def)
  have "err \<noteq> Some (Errorf ''listener is closed'')"
    using connect_error_External [of env s closed _ s1] assms(1) by (cases err) auto
  with run none one show ?thesis by blast
qed

theorem OnStart_cases_witness:
  "connect envQuiet fresh0 =
       Returns (False, None)
         (fresh0\<lparr>conn := Some 1, clock := 1, trace := [EvLock, EvAccept 0, EvUnlock]\<rparr>)
   \<and> OnStart envQuiet fresh0 =
       Returns None
         (fresh0\<lparr>conn := Some 1, cancelPingCh := Some 0, pingTicker := Some 2000000000,
            nextChan := 1, clock := 1,
            trace := [EvLock, EvAccept 0, EvUnlock,
                      EvMakeChan 0, EvNewTicker 2000000000, EvGoHeartbeat]\<rparr>)
   \<and> OnStart envAcceptFails fresh0 =
       Returns (Some (External (IOError True ''accept timeout'')))
         (fresh0\<lparr>clock := 1,
            trace := [EvLock, EvAccept 0, EvUnlock,
                      EvLogError ''OnStart'' (External (IOError True ''accept timeout''))]\<rparr>)
   \<and> OnStart envListenerClosed fresh0 =
       Returns (Some (Errorf ''listener is closed''))
         (fresh0\<lparr>clock := 1, trace := [EvLock, EvAccept 0, EvUnlock]\<rparr>)
   \<and> OnStart envQuiet zeroPeriod0 = Panics"
proof -
  have c1: "connect envQuiet fresh0 =
       Returns (False, None)
         (fresh0\<lparr>conn := Some 1, clock := 1, trace := [EvLock, EvAccept 0, EvUnlock]\<rparr>)"
    by (simp add: connect_run [where l = 0] env_defs acceptTime_def closeOldEvents_def
        connectResult_def)
  have c2: "connect envAcceptFails fresh0 =
       Returns (False, Some (External (IOError True ''accept timeout'')))
         (fresh0\<lparr>conn := None, clock := 1, trace := [EvLock, EvAccept 0, EvUnlock]\<rparr>)"
    by (simp add: connect_run [where l = 0] env_defs acceptTime_def closeOldEvents_def
        connectResult_def)
  have c3: "connect envListenerClosed fresh0 =
       Returns (True, None)
         (fresh0\<lparr>conn := None, clock := 1, trace := [EvLock, EvAccept 0, EvUnlock]\<rparr>)"
    by (simp add: connect_run [where l = 0] env_defs acceptTime_def closeOldEvents_def
        connectResult_def)
  have c4: "connect envQuiet zeroPeriod0 =
     Returns (False, None)
       (zeroPeriod0\<lparr>conn := Some 1, clock := 1, trace := [EvLock, EvAccept 0, EvUnlock]\<rparr>)"
    by (simp add: connect_run [where l = 0] env_defs zeroPeriod0_def acceptTime_def
        closeOldEvents_def connectResult_def)
  have t1: "OnStart envQuiet fresh0 =
       Returns None
         (fresh0\<lparr>conn := Some 1, cancelPingCh := Some 0, pingTicker := Some 2000000000,
            nextChan := 1, clock := 1,
            trace := [EvLock, EvAccept 0, EvUnlock,
                      EvMakeChan 0, EvNewTicker 2000000000, EvGoHeartbeat]\<rparr>)"
    using OnStart_cases [OF c1, THEN conjunct1] by (simp add: env_defs)
  have t2: "OnStart envAcceptFails fresh0 =
       Returns (Some (External (IOError True ''accept timeout'')))
         (fresh0\<lparr>clock := 1,
            trace := [EvLock, EvAccept 0, EvUnlock,
                      EvLogError ''OnStart'' (External (IOError True ''accept timeout''))]\<rparr>)"
    using OnStart_cases [OF c2, THEN conjunct1] by (simp add: env_defs)
  have t3: "OnStart envListenerClosed fresh0 =
       Returns (Some (Errorf ''listener is closed''))
         (fresh0\<lparr>clock := 1, trace := [EvLock, EvAccept 0, EvUnlock]\<rparr>)"
    using OnStart_cases [OF c3, THEN conjunct1] by (simp add: env_defs)
  have t4: "OnStart envQuiet zeroPeriod0 = Panics"
    using OnStart_cases [OF c4, THEN conjunct1] by (simp add: zeroPeriod0_def)
  from c1 t1 t2 t3 t4 show ?thesis by simp
qed

text \<open>
  Claim C7. After an \<^verbatim>\<open>OnStop\<close> that returned, the cancellation field is nil and the
  channel has been closed once if there was one; any number of further \<^verbatim>\<open>OnStop\<close>
  calls return without a panic and close no channel.
\<close>

theorem OnStop_idempotent:
  assumes "OnStop env s = Returns u s1"
  shows "cancelPingCh s1 = None
         \<and> closes (trace s1) = closes (trace s) + (if cancelPingCh s = None then 0 else 1)
         \<and> (\<exists>s2. OnStop_times env n s1 = Returns () s2 \<and> cancelPingCh s2 = None
                  \<and> closedChans s2 = closedChans s1 \<and> closes (trace s2) = closes (trace s1))"
proof -
  have first: "cancelPingCh s1 = None \<and> \<not> mtx s1
         \<and> closes (trace s1) = closes (trace s) + (if cancelPingCh s = None then 0 else 1)"
  proof (cases "cancelPingCh s")
    case None
    with assms obtain r where c: "Close env s = Returns r s1"
      by (cases "Close env s") (simp_all add: OnStop_def)
    from Close_frame [OF c] None show ?thesis by simp
  next
    case (Some ch)
    show ?thesis
    proof (cases "ch \<in> set (closedChans s)")
      case True
      with assms Some show ?thesis by (simp add: OnStop_def closeChan_def)
    next
      case False
      let ?s0 = "s\<lparr>closedChans := ch # closedChans s, trace := trace s @ [EvCloseChan ch],
                    cancelPingCh := None\<rparr>"
      from assms Some False obtain r where c: "Close env ?s0 = Returns r s1"
        by (cases "Close env ?s0") (simp_all add: OnStop_def closeChan_def emit_def)
      from Close_frame [OF c] Some show ?thesis by simp
    qed
  qed
  then have "cancelPingCh s1 = None" and "\<not> mtx s1" by simp_all
  from OnStop_times_without_signal [OF this, of env n]
  obtain s2 where "OnStop_times env n s1 = Returns () s2" and "cancelPingCh s2 = None"
    and "closedChans s2 = closedChans s1" and "closes (trace s2) = closes (trace s1)"
    by blast
  then have "\<exists>s2. OnStop_times env n s1 = Returns () s2 \<and> cancelPingCh s2 = None
      \<and> closedChans s2 = closedChans s1 \<and> closes (trace s2) = closes (trace s1)"
    by blast
  with first show ?thesis by blast
qed

theorem OnStop_idempotent_witness:
  "OnStop envQuiet started0 = Returns () stopped0
   \<and> cancelPingCh stopped0 = None
   \<and> closes (trace stopped0) = closes (trace started0) + 1
   \<and> OnStop_times envQuiet 2 stopped0 =
       Returns ()
         (stopped0\<lparr>clock := 4,
            trace := [EvCloseChan 0, EvLock, EvConnClose 1, EvListenerClose 0, EvUnlock,
                      EvLock, EvListenerClose 0, EvUnlock,
                      EvLock, EvListenerClose 0, EvUnlock]\<rparr>)"
proof -
  have one: "OnStop envQuiet started0 = Returns () stopped0"
    by (simp add: OnStop_def closeChan_def Close_def closeBody_def closeListenerPart_def
        prim_defs env_defs started0_def stopped0_def)
  have two: "OnStop_times envQuiet 2 stopped0 =
       Returns ()
         (stopped0\<lparr>clock := 4,
            trace := [EvCloseChan 0, EvLock, EvConnClose 1, EvListenerClose 0, EvUnlock,
                      EvLock, EvListenerClose 0, EvUnlock,
                      EvLock, EvListenerClose 0, EvUnlock]\<rparr>)"
    by (simp add: numeral_2_eq_2 OnStop_def closeChan_def Close_def closeBody_def
        closeListenerPart_def prim_defs env_defs started0_def stopped0_def)
  note w = OnStop_idempotent [OF one, of 2]
  have "cancelPingCh stopped0 = None"
    by (rule w [THEN conjunct1])
  moreover have "closes (trace stopped0) = closes (trace started0) + 1"
    using w [THEN conjunct2, THEN conjunct1] by (simp add: started0_def)
  ultimately show ?thesis using one two by simp
qed

subsection \<open>ping\<close>

text \<open>
  A write that fails with the value \<^verbatim>\<open>ErrUnexpectedResponse\<close> is returned unchanged
  by \<^verbatim>\<open>writeMessage\<close>, \<^verbatim>\<open>SendRequest\<close> and \<^verbatim>\<open>ping\<close>, and the heartbeat loop,
  which compares by identity, ends as for a wrong-typed reply, although no response
  was read.
\<close>

theorem transport_sentinel_is_fatal:
  "writeR envSentinelWrite 1 PingRequest (clock connected0) = Some ErrUnexpectedResponse
   \<and> SendRequest envSentinelWrite PingRequest connected0 =
       Returns (None, Some ErrUnexpectedResponse)
         (connected0\<lparr>clock := 1, trace := [EvLock, EvWrite 1 PingRequest, EvUnlock]\<rparr>)
   \<and> ping envSentinelWrite connected0 =
       Returns (Some ErrUnexpectedResponse)
         (connected0\<lparr>clock := 1, trace := [EvLock, EvWrite 1 PingRequest, EvUnlock]\<rparr>)
   \<and> heartbeat_tick envSentinelWrite connected0 =
       Returns Terminated
         (connected0\<lparr>clock := 1,
            trace := [EvLock, EvWrite 1 PingRequest, EvUnlock,
                      EvLogError ''Ping'' ErrUnexpectedResponse]\<rparr>)"
  by (simp add: heartbeat_tick_def ping_def SendRequest_run env_defs wrapTimeout_def
      logError_def emit_def Let_def)

text \<open>
  Claim C10, as the code has it. \<^verbatim>\<open>ping\<close> returns the unexpected-response error
  exactly when \<^verbatim>\<open>SendRequest\<close> succeeded with a response that is not a
  \<^verbatim>\<open>PingResponse\<close>, or \<^verbatim>\<open>SendRequest\<close> failed with that very error value. When
  \<^verbatim>\<open>SendRequest\<close> fails, \<^verbatim>\<open>ping\<close> returns its error unchanged, and the tick ends
  the loop if that error is the unexpected-response error and goes on to reconnect
  otherwise. \<^verbatim>\<open>SendRequest\<close> fails with the unexpected-response error only when the
  write or the read on the connection held handed up that value, and it succeeds only
  when the request was written and a response read without error.
\<close>

theorem ping_unexpected_response_origin:
  "(ping env s = Returns (Some ErrUnexpectedResponse) s'
      \<longleftrightarrow> (\<exists>r. SendRequest env PingRequest s = Returns (r, None) s' \<and> r \<noteq> Some PingResponse)
          \<or> (\<exists>r. SendRequest env PingRequest s = Returns (r, Some ErrUnexpectedResponse) s'))
   \<and> (\<forall>r e. SendRequest env PingRequest s = Returns (r, Some e) s'
         \<longrightarrow> ping env s = Returns (Some e) s'
             \<and> heartbeat_tick env s =
                 (if e = ErrUnexpectedResponse then Returns Terminated (logError ''Ping'' e s')
                  else reconnect env (logError ''Ping'' e s')))
   \<and> (\<forall>r. SendRequest env PingRequest s = Returns (r, Some ErrUnexpectedResponse) s'
         \<longrightarrow> (\<exists>c. conn s = Some c
                 \<and> (writeR env c PingRequest (clock s) = Some ErrUnexpectedResponse
                    \<or> writeR env c PingRequest (clock s) = None
                      \<and> snd (readR env c (Suc (clock s))) = Some ErrUnexpectedResponse)))
   \<and> (\<forall>r. SendRequest env PingRequest s = Returns (r, None) s'
         \<longrightarrow> (\<exists>c. conn s = Some c
                 \<and> writeR env c PingRequest (clock s) = None
                 \<and> readR env c (Suc (clock s)) = (r, None)
                 \<and> trace s' = trace s @ [EvLock, EvWrite c PingRequest, EvRead c, EvUnlock]))"
proof -
  have a: "ping env s = Returns (Some ErrUnexpectedResponse) s'
      \<longleftrightarrow> (\<exists>r. SendRequest env PingRequest s = Returns (r, None) s' \<and> r \<noteq> Some PingResponse)
          \<or> (\<exists>r. SendRequest env PingRequest s = Returns (r, Some ErrUnexpectedResponse) s')"
  proof (cases "SendRequest env PingRequest s")
    case (Returns a s1)
    obtain r err where a: "a = (r, err)" by (cases a)
    show ?thesis
    proof (cases err)
      case None
      with Returns a show ?thesis by (simp add: ping_def)
    next
      case (Some e)
      with Returns a show ?thesis by (auto simp: ping_def)
    qed
  qed (simp_all add: ping_def)
  have b: "\<forall>r e. SendRequest env PingRequest s = Returns (r, Some e) s'
         \<longrightarrow> ping env s = Returns (Some e) s'
             \<and> heartbeat_tick env s =
                 (if e = ErrUnexpectedResponse then Returns Terminated (logError ''Ping'' e s')
                  else reconnect env (logError ''Ping'' e s'))"
    by (simp add: heartbeat_tick_def ping_def Let_def)
  have c: "\<forall>r. SendRequest env PingRequest s = Returns (r, Some ErrUnexpectedResponse) s'
         \<longrightarrow> (\<exists>c. conn s = Some c
                 \<and> (writeR env c PingRequest (clock s) = Some ErrUnexpectedResponse
                    \<or> writeR env c PingRequest (clock s) = None
                      \<and> snd (readR env c (Suc (clock s))) = Some ErrUnexpectedResponse))"
  proof (intro allI impI)
    fix r
    assume sr: "SendRequest env PingRequest s = Returns (r, Some ErrUnexpectedResponse) s'"
    from SendRequest_Returns [OF sr] wrapTimeout_unexpected
    show "\<exists>c. conn s = Some c
                 \<and> (writeR env c PingRequest (clock s) = Some ErrUnexpectedResponse
                    \<or> writeR env c PingRequest (clock s) = None
                      \<and> snd (readR env c (Suc (clock s))) = Some ErrUnexpectedResponse)"
      by (metis error.distinct(3) option.inject)
  qed
  have d: "\<forall>r. SendRequest env PingRequest s = Returns (r, None) s'
         \<longrightarrow> (\<exists>c. conn s = Some c
                 \<and> writeR env c PingRequest (clock s) = None
                 \<and> readR env c (Suc (clock s)) = (r, None)
                 \<and> trace s' = trace s @ [EvLock, EvWrite c PingRequest, EvRead c, EvUnlock])"
  proof (intro allI impI)
    fix r
    assume sr: "SendRequest env PingRequest s = Returns (r, None) s'"
    from SendRequest_Returns [OF sr] obtain c where c: "conn s = Some c"
      and w: "writeR env c PingRequest (clock s) = None"
      and e: "None = wrapTimeout (snd (readR env c (Suc (clock s))))"
      and r: "r = fst (readR env c (Suc (clock s)))"
      and s': "s' = s\<lparr>clock := Suc (Suc (clock s)),
                      trace := trace s @ [EvLock, EvWrite c PingRequest, EvRead c, EvUnlock]\<rparr>"
      by auto
    from e have "snd (readR env c (Suc (clock s))) = None"
      by (simp add: wrapTimeout_None [symmetric])
    with r have "readR env c (Suc (clock s)) = (r, None)"
      by (cases "readR env c (Suc (clock s))") simp
    with c w s' show "\<exists>c. conn s = Some c
                 \<and> writeR env c PingRequest (clock s) = None
                 \<and> readR env c (Suc (clock s)) = (r, None)
                 \<and> trace s' = trace s @ [EvLock, EvWrite c PingRequest, EvRead c, EvUnlock]"
      by simp
  qed
  from a b c d show ?thesis by blast
qed

theorem ping_unexpected_response_origin_witness:
  "SendRequest envWrongReply PingRequest connected0 =
     Returns (Some (OtherMsg 7), None)
       (connected0\<lparr>clock := 2, trace := [EvLock, EvWrite 1 PingRequest, EvRead 1, EvUnlock]\<rparr>)
   \<and> ping envWrongReply connected0 =
     Returns (Some ErrUnexpectedResponse)
       (connected0\<lparr>clock := 2, trace := [EvLock, EvWrite 1 PingRequest, EvRead 1, EvUnlock]\<rparr>)
   \<and> SendRequest envBrokenPipe PingRequest connected0 =
     Returns (None, Some (External (IOError False ''broken pipe'')))
       (connected0\<lparr>clock := 1, trace := [EvLock, EvWrite 1 PingRequest, EvUnlock]\<rparr>)
   \<and> ping envBrokenPipe connected0 =
     Returns (Some (External (IOError False ''broken pipe'')))
       (connected0\<lparr>clock := 1, trace := [EvLock, EvWrite 1 PingRequest, EvUnlock]\<rparr>)"
proof -
  let ?s2 = "connected0\<lparr>clock := 2, trace := [EvLock, EvWrite 1 PingRequest, EvRead 1, EvUnlock]\<rparr>"
  let ?s1 = "connected0\<lparr>clock := 1, trace := [EvLock, EvWrite 1 PingRequest, EvUnlock]\<rparr>"
  have ok: "SendRequest envWrongReply PingRequest connected0 =
      Returns (Some (OtherMsg 7), None) ?s2"
    by (simp add: SendRequest_run env_defs wrapTimeout_def)
  have bad: "SendRequest envBrokenPipe PingRequest connected0 =
      Returns (None, Some (External (IOError False ''broken pipe''))) ?s1"
    by (simp add: SendRequest_run env_defs wrapTimeout_def)
  have ne: "Some (OtherMsg 7) \<noteq> Some PingResponse" by simp
  have "ping envWrongReply connected0 = Returns (Some ErrUnexpectedResponse) ?s2"
    using ping_unexpected_response_origin [of envWrongReply connected0 ?s2, THEN conjunct1] ok ne
    by blast
  moreover have "ping envBrokenPipe connected0 =
      Returns (Some (External (IOError False ''broken pipe''))) ?s1"
    using ping_unexpected_response_origin
            [of envBrokenPipe connected0 ?s1, THEN conjunct2, THEN conjunct1] bad
    by blast
  ultimately show ?thesis using ok bad by simp
qed

end
